theory Spec2Isabelle
  imports Main
begin

section \<open>Values shared by the whole package\<close>

text \<open>
  Go's \<open>string\<close> is a byte sequence: \<^typ>\<open>string\<close>. Go's \<open>int\<close> and \<open>int64\<close> are
  modelled by \<^typ>\<open>int\<close>: \<open>gen.go\<close> compares and prints integers, and increments loop
  counters that stay below \<open>g.Len()\<close>; it performs no arithmetic that could wrap.
\<close>

subsection \<open>\<open>fmt.Sprintf("%d", n)\<close>\<close>

fun show_nat :: "nat \<Rightarrow> string" where
  "show_nat n =
     (if n < 10 then [''0123456789'' ! n]
      else show_nat (n div 10) @ [''0123456789'' ! (n mod 10)])"

definition show_int :: "int \<Rightarrow> string" where
  "show_int i = (if i < 0 then ''-'' @ show_nat (nat (- i)) else show_nat (nat i))"

subsection \<open>Errors\<close>

text \<open>
  Every \<open>errors.New\<close> of \<open>gen.go\<close> is one constructor, carrying the strings the message is
  built from; \<open>error_text\<close> renders the message. The last three constructors are not
  returned errors but panics: the explicit \<open>panic\<close> of \<open>GenerateTemplate\<close>, the nil
  dereference \<open>err.Error()\<close> of \<open>GenerateWithCommand\<close> when the read gives a nil buffer
  and no error, and Go's run-time check of a slice index.
\<close>

datatype error =
    CannotFindCommand string string
  | BadInputNull
  | UnableToReadTemplate string string
  | TemplateParseError string
  | ExceptionExecutingTemplate string
  | BadArgumentNull
  | SameInputOutput
  | UnableToCreateOutput string string
  | UnableToReadInput string string
  | UnableToParseTemplate string
  | ErrorExecutingTemplate string
  | CannotMakeDir string string
  | UnableToLocate string
  | EmptySeparatorAndPath
  | Os string
  | Wrapped string error
  | PanicNilRead
  | PanicNilDereference
  | PanicIndexOutOfRange int nat

fun error_text :: "error \<Rightarrow> string" where
  "error_text (CannotFindCommand command cause) =
     ''Cannot find command \"'' @ command @ ''\": '' @ cause"
| "error_text BadInputNull = ''bad input: null pointer''"
| "error_text (UnableToReadTemplate path cause) =
     ''Unable to read template \"'' @ path @ ''\": '' @ cause"
| "error_text (TemplateParseError cause) = ''Template parse error: '' @ cause"
| "error_text (ExceptionExecutingTemplate cause) = ''Exception executing template: '' @ cause"
| "error_text BadArgumentNull = ''bad argument: null pointer''"
| "error_text SameInputOutput = ''input file (template) cannot be same as output file''"
| "error_text (UnableToCreateOutput path cause) =
     ''unable to create output file ('' @ path @ ''): '' @ cause"
| "error_text (UnableToReadInput path cause) =
     ''unable to read input file ('' @ path @ ''): '' @ cause"
| "error_text (UnableToParseTemplate cause) = ''unable to parse the template: '' @ cause"
| "error_text (ErrorExecutingTemplate cause) = ''error executing template: '' @ cause"
| "error_text (CannotMakeDir dir cause) = ''Cannot make dir ('' @ dir @ ''): '' @ cause"
| "error_text (UnableToLocate path) = ''Unable to locate: '' @ path"
| "error_text EmptySeparatorAndPath = ''Both separator and path are empty!''"
| "error_text (Os cause) = cause"
| "error_text (Wrapped prefix e) = prefix @ error_text e"
| "error_text PanicNilRead = ''Nil pointer to read file''"
| "error_text PanicNilDereference =
     ''runtime error: invalid memory address or nil pointer dereference''"
| "error_text (PanicIndexOutOfRange i n) =
     ''runtime error: index out of range ['' @ show_int i @ ''] with length '' @ show_nat n"

fun is_panic :: "error \<Rightarrow> bool" where
  "is_panic PanicNilRead = True"
| "is_panic PanicNilDereference = True"
| "is_panic (PanicIndexOutOfRange i n) = True"
| "is_panic e = False"

section \<open>Graphviz data\<close>

text \<open>
  \<open>graph.Edge\<close> is declared in package \<open>graph\<close>; \<open>gen.go\<close> reads its fields \<open>Tag\<close>,
  \<open>Num\<close> (both printed with \<open>%d\<close>) and \<open>Color\<close>.
\<close>

record Edge =
  Tag :: int
  Num :: int
  Color :: string

record Link =
  From :: int
  To :: int
  Color :: string
  Label :: string

record Node =
  Id_node :: int
  Label :: string
  Style :: string
  Fill :: string
  Shape :: string

record Graphviz_graph =
  Nodes :: "Node list"
  Links :: "Link list"

record 'a Graphviz_application =
  App :: "'a option"
  Links :: "Link list"

text \<open>
  \<open>Graph\<close> is a \<open>*graph.Graph\<close>: the type \<open>'g\<close>. A Go map read at a missing key gives
  the zero value: \<open>map_get\<close>.
\<close>

record 'g Graphdata =
  Chains :: "int list"
  Node_wcet_map :: "int \<rightharpoonup> int"
  Node_prio_map :: "int \<rightharpoonup> int"
  Graph :: 'g

definition map_get :: "(int \<rightharpoonup> int) \<Rightarrow> int \<Rightarrow> int" where
  "map_get m k = (case m k of None \<Rightarrow> 0 | Some v \<Rightarrow> v)"

subsection \<open>The operations of packages \<open>graph\<close> and \<open>ops\<close>\<close>

text \<open>
  \<open>g.Len()\<close>, \<open>ops.EdgesAt\<close>, \<open>ops.Disconnected\<close> and \<open>ops.ChainForRow\<close> belong to other
  packages. The functions of \<open>gen.go\<close> take them as a parameter, so every theorem holds
  whatever they compute.
\<close>

record 'g Ops =
  Len :: "'g \<Rightarrow> int"
  EdgesAt :: "int \<Rightarrow> int \<Rightarrow> 'g \<Rightarrow> Edge list"
  Disconnected :: "int \<Rightarrow> 'g \<Rightarrow> bool"
  ChainForRow :: "int \<Rightarrow> int list \<Rightarrow> int"

text \<open>
  Modelled from the spec: \<open>ops.NodeCount\<close>, of package \<open>ops\<close>, is missing. The spec
  gives it: ``\<open>NodeCount(chains)\<close> (sum of chain lengths)''.
\<close>

definition NodeCount :: "int list \<Rightarrow> int" where
  "NodeCount lengths = sum_list lengths"

subsection \<open>\<open>graph_to_graphviz\<close>\<close>

text \<open>
  The closure \<open>length_one_chain\<close>. Go checks the slice index; out of range it panics.
\<close>

definition length_one_chain :: "'g Ops \<Rightarrow> 'g Graphdata \<Rightarrow> int \<Rightarrow> error + bool" where
  "length_one_chain ops graph_data row =
     (let c = ChainForRow ops row (Chains graph_data) in
      if 0 \<le> c \<and> c < int (length (Chains graph_data))
      then Inr (Chains graph_data ! nat c = 1)
      else Inl (PanicIndexOutOfRange c (length (Chains graph_data))))"

definition chain_node :: "'g Graphdata \<Rightarrow> int \<Rightarrow> Node" where
  "chain_node graph_data i =
     \<lparr>Id_node = i,
      Label = ''N'' @ show_int i @ ''\<newline>(wcet='' @
              show_int (map_get (Node_wcet_map graph_data) i) @ '' us)\<newline>prio='' @
              show_int (map_get (Node_prio_map graph_data) i),
      Style = ''filled'', Fill = ''#FFFFFF'', Shape = ''circle''\<rparr>"

definition sync_node :: "int \<Rightarrow> Node" where
  "sync_node i =
     \<lparr>Id_node = i, Label = ''N'' @ show_int i @ ''\<newline>(SYNC)'',
      Style = ''filled'', Fill = ''#FFE74C'', Shape = ''diamond''\<rparr>"

text \<open>The body of the node loop once the node is kept: lines 391 to 400.\<close>

definition append_node :: "'g Graphdata \<Rightarrow> int \<Rightarrow> int \<Rightarrow> Node list \<Rightarrow> Node list" where
  "append_node graph_data n_chain_nodes i nodes =
     (if i < n_chain_nodes then nodes @ [chain_node graph_data i]
      else nodes @ [sync_node i])"

text \<open>
  The node loop \<open>for i := 0; i < graph_data.Graph.Len(); i++\<close>. The \<open>||\<close> of its
  condition evaluates \<open>length_one_chain(i)\<close> only when node \<open>i\<close> is disconnected.
\<close>

function graph_nodes ::
  "'g Ops \<Rightarrow> 'g Graphdata \<Rightarrow> int \<Rightarrow> int \<Rightarrow> Node list \<Rightarrow> error + Node list" where
  "graph_nodes ops graph_data n_chain_nodes i nodes =
     (if i < Len ops (Graph graph_data) then
        (if \<not> Disconnected ops i (Graph graph_data)
         then graph_nodes ops graph_data n_chain_nodes (i + 1)
                (append_node graph_data n_chain_nodes i nodes)
         else (case length_one_chain ops graph_data i of
                 Inl e \<Rightarrow> Inl e
               | Inr one \<Rightarrow>
                   graph_nodes ops graph_data n_chain_nodes (i + 1)
                     (if one then append_node graph_data n_chain_nodes i nodes else nodes)))
      else Inr nodes)"
  by pat_completeness auto
termination
  by (relation "measure (\<lambda>(ops, graph_data, n, i, nodes). nat (Len ops (Graph graph_data) - i))")
    auto

text \<open>The link loops of \<open>graph_to_graphviz\<close>: lines 406 to 414.\<close>

fun graph_edge_links :: "int \<Rightarrow> int \<Rightarrow> Edge list \<Rightarrow> Link list \<Rightarrow> Link list" where
  "graph_edge_links i j [] links = links"
| "graph_edge_links i j (e # edges) links =
     graph_edge_links i j edges
       (links @ [\<lparr>From = i, To = j, Color = Edge.Color e,
                  Label = show_int (Tag e) @ ''.'' @ show_int (Num e)\<rparr>])"

function graph_links_inner :: "'g Ops \<Rightarrow> 'g \<Rightarrow> int \<Rightarrow> int \<Rightarrow> Link list \<Rightarrow> Link list" where
  "graph_links_inner ops g i j links =
     (if j < Len ops g
      then graph_links_inner ops g i (j + 1) (graph_edge_links i j (EdgesAt ops i j g) links)
      else links)"
  by pat_completeness auto
termination
  by (relation "measure (\<lambda>(ops, g, i, j, links). nat (Len ops g - j))") auto

function graph_links_outer :: "'g Ops \<Rightarrow> 'g \<Rightarrow> int \<Rightarrow> Link list \<Rightarrow> Link list" where
  "graph_links_outer ops g i links =
     (if i < Len ops g
      then graph_links_outer ops g (i + 1) (graph_links_inner ops g i 0 links)
      else links)"
  by pat_completeness auto
termination
  by (relation "measure (\<lambda>(ops, g, i, links). nat (Len ops g - i))") auto

definition graph_to_graphviz :: "'g Ops \<Rightarrow> 'g Graphdata \<Rightarrow> error + Graphviz_graph" where
  "graph_to_graphviz ops graph_data =
     (case graph_nodes ops graph_data (NodeCount (Chains graph_data)) 0 [] of
        Inl e \<Rightarrow> Inl e
      | Inr nodes \<Rightarrow>
          Inr \<lparr>Nodes = nodes, Links = graph_links_outer ops (Graph graph_data) 0 []\<rparr>)"

subsection \<open>\<open>application_to_graphviz\<close>\<close>

text \<open>The source repeats the link loops here (lines 360 to 368); so does the model.\<close>

fun app_edge_links :: "int \<Rightarrow> int \<Rightarrow> Edge list \<Rightarrow> Link list \<Rightarrow> Link list" where
  "app_edge_links i j [] links = links"
| "app_edge_links i j (e # edges) links =
     app_edge_links i j edges
       (links @ [\<lparr>From = i, To = j, Color = Edge.Color e,
                  Label = show_int (Tag e) @ ''.'' @ show_int (Num e)\<rparr>])"

function app_links_inner :: "'g Ops \<Rightarrow> 'g \<Rightarrow> int \<Rightarrow> int \<Rightarrow> Link list \<Rightarrow> Link list" where
  "app_links_inner ops g i j links =
     (if j < Len ops g
      then app_links_inner ops g i (j + 1) (app_edge_links i j (EdgesAt ops i j g) links)
      else links)"
  by pat_completeness auto
termination
  by (relation "measure (\<lambda>(ops, g, i, j, links). nat (Len ops g - j))") auto

function app_links_outer :: "'g Ops \<Rightarrow> 'g \<Rightarrow> int \<Rightarrow> Link list \<Rightarrow> Link list" where
  "app_links_outer ops g i links =
     (if i < Len ops g
      then app_links_outer ops g (i + 1) (app_links_inner ops g i 0 links)
      else links)"
  by pat_completeness auto
termination
  by (relation "measure (\<lambda>(ops, g, i, links). nat (Len ops g - i))") auto

definition application_to_graphviz ::
  "'g Ops \<Rightarrow> 'a option \<Rightarrow> 'g \<Rightarrow> error + 'a Graphviz_application" where
  "application_to_graphviz ops a g = Inr \<lparr>App = a, Links = app_links_outer ops g 0 []\<rparr>"

section \<open>File staging helpers\<close>

text \<open>
  \<open>strings.Split(path, "/")\<close> of the Go library, for a separator of one byte: the
  substrings between the separators, one more than there are separators.
\<close>

fun split_byte :: "char \<Rightarrow> string \<Rightarrow> string list" where
  "split_byte sep [] = [[]]"
| "split_byte sep (c # cs) =
     (if c = sep then [] # split_byte sep cs
      else (case split_byte sep cs of
              [] \<Rightarrow> [[c]]
            | first # others \<Rightarrow> (c # first) # others))"

definition filename_from_path :: "string \<Rightarrow> error + string" where
  "filename_from_path path =
     (let path_elements = split_byte CHR ''/'' path in
      if length path_elements = 0 then Inl EmptySeparatorAndPath
      else Inr (path_elements ! (length path_elements - 1)))"

fun filenames_loop :: "string list \<Rightarrow> string list \<Rightarrow> error + string list" where
  "filenames_loop [] filenames = Inr filenames"
| "filenames_loop (path # paths) filenames =
     (case filename_from_path path of
        Inl e \<Rightarrow> Inl e
      | Inr filename \<Rightarrow> filenames_loop paths (filenames @ [filename]))"

definition filenames_from_paths :: "string list \<Rightarrow> error + string list" where
  "filenames_from_paths paths = filenames_loop paths []"

text \<open>
  The words of the spec, ``the substring after the last separator'': what follows the
  last \<open>/\<close> of the path, the whole path when it has none.
\<close>

definition after_last_separator :: "string \<Rightarrow> string" where
  "after_last_separator path = rev (takeWhile (\<lambda>c. c \<noteq> CHR ''/'') (rev path))"

section \<open>The world outside the program\<close>

text \<open>
  The file system, the search path, the template engine and the spawned command are
  outside the program. Each call to them is an event of a trace, in the order of the
  calls, and what the call answers is a field of the environment \<open>Env\<close>, which may
  depend on everything that happened before. The theorems hold for every environment.

  A template is executed into a sink: the buffered writer of an output file, or the pipe
  that a command reads as its standard input.
\<close>

datatype sink = ToFile string | ToCommand string "string list"

datatype 'd event =
    LookPath_ev string
  | Mkdir_ev string
  | Stat_ev string
  | Create_ev string
  | ReadFile_ev string
  | Execute_ev 'd sink
  | Close_ev string
  | Open_ev string
  | OpenFile_ev string
  | Copy_ev string string
  | Start_ev string "string list"
  | PipeClose_ev
  | Exit_ev string "string option"

text \<open>
  An answer \<open>Some cause\<close> or \<open>Inl cause\<close> is the text of the error the call returns.
  \<open>ReadFile\<close> answers \<open>Inr None\<close> for a nil buffer with a nil error, which both renderers
  test for. \<open>Stat\<close> is \<open>!os.IsNotExist(err)\<close>. \<open>Run\<close> is the result of \<open>cmd.Run()\<close>:
  \<open>Some cause\<close> when the command cannot start or exits with a failure.
\<close>

record ('t, 'd) Env =
  LookPath :: "string \<Rightarrow> 'd event list \<Rightarrow> string + string"
  Mkdir :: "string \<Rightarrow> 'd event list \<Rightarrow> string option"
  Stat :: "string \<Rightarrow> 'd event list \<Rightarrow> bool"
  Create :: "string \<Rightarrow> 'd event list \<Rightarrow> string option"
  ReadFile :: "string \<Rightarrow> 'd event list \<Rightarrow> string + string option"
  Parse :: "string \<Rightarrow> string + 't"
  Execute :: "'t \<Rightarrow> 'd \<Rightarrow> sink \<Rightarrow> 'd event list \<Rightarrow> string option"
  Open :: "string \<Rightarrow> 'd event list \<Rightarrow> string option"
  OpenFile :: "string \<Rightarrow> 'd event list \<Rightarrow> string option"
  Copy :: "string \<Rightarrow> string \<Rightarrow> 'd event list \<Rightarrow> string option"
  Run :: "string \<Rightarrow> string list \<Rightarrow> 'd event list \<Rightarrow> string option"

section \<open>Template renderer\<close>

text \<open>
  \<open>data interface{}\<close> may be nil: \<open>'d option\<close>. The result is the returned error
  (\<open>None\<close> for nil), or a panic, and the trace.

  In \<open>GenerateWithCommand\<close> the command runs in a goroutine, beside the execution of the
  template. The trace puts its start before the execution and its exit after the pipe is
  closed: one of the possible orders. The goroutine drops the result of \<open>cmd.Run()\<close>, so
  the model only records it, in \<open>Exit_ev\<close>. When the command stops reading, \<open>t.Execute\<close>
  may fail on the pipe: that is an answer of \<open>Execute\<close> for the sink \<open>ToCommand\<close>.
\<close>

definition GenerateWithCommand ::
  "('t, 'd) Env \<Rightarrow> string \<Rightarrow> string \<Rightarrow> string list \<Rightarrow> 'd option \<Rightarrow> 'd event list \<Rightarrow>
   error option \<times> 'd event list" where
  "GenerateWithCommand env path command args data tr =
     (let tr1 = tr @ [LookPath_ev command] in
      case LookPath env command tr of
        Inl cause \<Rightarrow> (Some (CannotFindCommand command cause), tr1)
      | Inr found \<Rightarrow>
          (case data of
             None \<Rightarrow> (Some BadInputNull, tr1)
           | Some d \<Rightarrow>
               (let tr2 = tr1 @ [ReadFile_ev path] in
                case ReadFile env path tr1 of
                  Inl cause \<Rightarrow> (Some (UnableToReadTemplate path cause), tr2)
                | Inr None \<Rightarrow> (Some PanicNilDereference, tr2)
                | Inr (Some template_buffer) \<Rightarrow>
                    (case Parse env template_buffer of
                       Inl cause \<Rightarrow> (Some (TemplateParseError cause), tr2)
                     | Inr t \<Rightarrow>
                         (let tr3 = tr2 @ [Start_ev command args];
                              tr4 = tr3 @ [Execute_ev d (ToCommand command args), PipeClose_ev];
                              tr5 = tr4 @ [Exit_ev command (Run env command args tr4)]
                          in case Execute env t d (ToCommand command args) tr3 of
                               Some cause \<Rightarrow> (Some (ExceptionExecutingTemplate cause), tr5)
                             | None \<Rightarrow> (None, tr5))))))"

definition GenerateTemplate ::
  "('t, 'd) Env \<Rightarrow> 'd option \<Rightarrow> string \<Rightarrow> string \<Rightarrow> 'd event list \<Rightarrow>
   error option \<times> 'd event list" where
  "GenerateTemplate env data in_path out_path tr =
     (case data of
        None \<Rightarrow> (Some BadArgumentNull, tr)
      | Some d \<Rightarrow>
          if in_path = out_path then (Some SameInputOutput, tr)
          else
            (let tr1 = tr @ [Create_ev out_path] in
             case Create env out_path tr of
               Some cause \<Rightarrow> (Some (UnableToCreateOutput out_path cause), tr1)
             | None \<Rightarrow>
                 (let tr2 = tr1 @ [ReadFile_ev in_path] in
                  case ReadFile env in_path tr1 of
                    Inl cause \<Rightarrow>
                      (Some (UnableToReadInput in_path cause), tr2 @ [Close_ev out_path])
                  | Inr None \<Rightarrow> (Some PanicNilRead, tr2 @ [Close_ev out_path])
                  | Inr (Some template_file) \<Rightarrow>
                      (case Parse env template_file of
                         Inl cause \<Rightarrow>
                           (Some (UnableToParseTemplate cause), tr2 @ [Close_ev out_path])
                       | Inr t \<Rightarrow>
                           (let tr3 = tr2 @ [Execute_ev d (ToFile out_path), Close_ev out_path]
                            in case Execute env t d (ToFile out_path) tr2 of
                                 Some cause \<Rightarrow> (Some (ErrorExecutingTemplate cause), tr3)
                               | None \<Rightarrow> (None, tr3))))))"

text \<open>
  Modelled from the spec: the code returns errors that carry a message and no class. The
  classes are those of the spec's taxonomy: ``\<open>InvalidArgument\<close> (absent required data,
  identical input/output paths, malformed path strings), \<open>NotFound\<close> (external command
  unresolvable, missing source file/directory), \<open>IOError\<close> (file/directory
  create/read/write failures), \<open>TemplateError\<close> (parse or execution failure against
  supplied data)''. A wrapped error has the class of the error it wraps; the spec gives a
  panic no class.
\<close>

datatype error_class = InvalidArgument | NotFound | IOError | TemplateError

fun class_of :: "error \<Rightarrow> error_class option" where
  "class_of (CannotFindCommand command cause) = Some NotFound"
| "class_of BadInputNull = Some InvalidArgument"
| "class_of (UnableToReadTemplate path cause) = Some IOError"
| "class_of (TemplateParseError cause) = Some TemplateError"
| "class_of (ExceptionExecutingTemplate cause) = Some TemplateError"
| "class_of BadArgumentNull = Some InvalidArgument"
| "class_of SameInputOutput = Some InvalidArgument"
| "class_of (UnableToCreateOutput path cause) = Some IOError"
| "class_of (UnableToReadInput path cause) = Some IOError"
| "class_of (UnableToParseTemplate cause) = Some TemplateError"
| "class_of (ErrorExecutingTemplate cause) = Some TemplateError"
| "class_of (CannotMakeDir dir cause) = Some IOError"
| "class_of (UnableToLocate path) = Some NotFound"
| "class_of EmptySeparatorAndPath = Some InvalidArgument"
| "class_of (Os cause) = Some IOError"
| "class_of (Wrapped prefix e) = class_of e"
| "class_of PanicNilRead = None"
| "class_of PanicNilDereference = None"
| "class_of (PanicIndexOutOfRange i n) = None"

section \<open>Scaffolding orchestrator\<close>

text \<open>
  \<open>app.Executor\<close> is passed through to the templates: the type \<open>'x\<close>. Of
  \<open>app.Application\<close> the orchestrator reads \<open>Name\<close> and \<open>Executors\<close>.
\<close>

record 'x ROS_Executor =
  Includes :: "string list"
  MsgType :: string
  FilterPolicy :: string
  PPE :: bool
  PPE_levels :: int
  Executor :: 'x
  Duration_us :: int

record Metadata =
  Packages :: "string list"
  Includes :: "string list"
  MsgType :: string
  PPE :: bool
  PPE_levels :: int
  FilterPolicy :: string
  Libraries :: "string list"
  Headers :: "string list"
  Sources :: "string list"
  Duration_us :: int
  Logging_mode :: int

record 'x Build =
  Name :: string
  Packages :: "string list"
  Sources :: "string list"
  Libraries :: "string list"
  Executors :: "'x ROS_Executor list"

record 'x Application =
  Name :: string
  Executors :: "'x list"

text \<open>The values the orchestrator hands to the renderers as \<open>data\<close>.\<close>

datatype 'x Data =
    ExecutorData "'x ROS_Executor"
  | BuildData "'x Build"
  | GraphData Graphviz_graph
  | ApplicationData "'x Application Graphviz_application"

text \<open>A caller wraps the error it was returned; a panic unwinds through it unchanged.\<close>

definition wrap :: "string \<Rightarrow> error \<Rightarrow> error" where
  "wrap prefix e = (if is_panic e then e else Wrapped prefix e)"

fun make_directories ::
  "('t, 'd) Env \<Rightarrow> string list \<Rightarrow> 'd event list \<Rightarrow> error option \<times> 'd event list" where
  "make_directories env [] tr = (None, tr)"
| "make_directories env (dir # directories) tr =
     (case Mkdir env dir tr of
        Some cause \<Rightarrow> (Some (CannotMakeDir dir cause), tr @ [Mkdir_ev dir])
      | None \<Rightarrow> make_directories env directories (tr @ [Mkdir_ev dir]))"

definition ros_exec :: "Metadata \<Rightarrow> 'x \<Rightarrow> 'x ROS_Executor" where
  "ros_exec meta exec =
     \<lparr>ROS_Executor.Includes = Metadata.Includes meta,
      ROS_Executor.MsgType = Metadata.MsgType meta,
      ROS_Executor.FilterPolicy = Metadata.FilterPolicy meta,
      ROS_Executor.PPE = Metadata.PPE meta,
      ROS_Executor.PPE_levels = Metadata.PPE_levels meta,
      ROS_Executor.Executor = exec,
      ROS_Executor.Duration_us = Metadata.Duration_us meta\<rparr>"

text \<open>
  The loop \<open>for i, exec := range a.Executors\<close>, lines 248 to 267: \<open>i\<close> is the index of
  \<open>exec\<close>, \<open>executors\<close> the slice built so far.
\<close>

fun generate_sources ::
  "('t, 'x Data) Env \<Rightarrow> Metadata \<Rightarrow> string \<Rightarrow> string \<Rightarrow> int \<Rightarrow> 'x list \<Rightarrow>
   'x ROS_Executor list \<Rightarrow> 'x Data event list \<Rightarrow>
   error option \<times> 'x ROS_Executor list \<times> 'x Data event list" where
  "generate_sources env meta path src_dir i [] executors tr = (None, executors, tr)"
| "generate_sources env meta path src_dir i (exec # rest) executors tr =
     (let ros_exec_name = ''executor_'' @ show_int i @ ''.cpp'';
          executors' = executors @ [ros_exec meta exec];
          exec_template_file_name = ''executor_'' @ show_int (Logging_mode meta) @ ''.tmpl''
      in case GenerateTemplate env (Some (ExecutorData (ros_exec meta exec)))
                (path @ ''/templates/'' @ exec_template_file_name)
                (src_dir @ ''/'' @ ros_exec_name) tr of
           (Some e, tr') \<Rightarrow> (Some (wrap ''Unable to generate source file: '' e), executors', tr')
         | (None, tr') \<Rightarrow> generate_sources env meta path src_dir (i + 1) rest executors' tr')"

definition exists_file_or_directory ::
  "('t, 'd) Env \<Rightarrow> string \<Rightarrow> 'd event list \<Rightarrow> bool \<times> 'd event list" where
  "exists_file_or_directory env path tr = (Stat env path tr, tr @ [Stat_ev path])"

definition copy_file ::
  "('t, 'd) Env \<Rightarrow> string \<Rightarrow> string \<Rightarrow> 'd event list \<Rightarrow> error option \<times> 'd event list" where
  "copy_file env file_from file_to tr =
     (let tr1 = tr @ [Open_ev file_from] in
      case Open env file_from tr of
        Some cause \<Rightarrow> (Some (Os cause), tr1)
      | None \<Rightarrow>
          (let tr2 = tr1 @ [OpenFile_ev file_to] in
           case OpenFile env file_to tr1 of
             Some cause \<Rightarrow> (Some (Os cause), tr2 @ [Close_ev file_from])
           | None \<Rightarrow>
               (let tr3 = tr2 @ [Copy_ev file_from file_to, Close_ev file_to, Close_ev file_from]
                in case Copy env file_from file_to tr2 of
                     Some cause \<Rightarrow> (Some (Os cause), tr3)
                   | None \<Rightarrow> (None, tr3))))"

fun copy_files_loop ::
  "('t, 'd) Env \<Rightarrow> string list \<Rightarrow> string \<Rightarrow> 'd event list \<Rightarrow> error option \<times> 'd event list" where
  "copy_files_loop env [] destination tr = (None, tr)"
| "copy_files_loop env (path # paths) destination tr =
     (case exists_file_or_directory env path tr of
        (False, tr1) \<Rightarrow> (Some (UnableToLocate path), tr1)
      | (True, tr1) \<Rightarrow>
          (case filename_from_path path of
             Inl e \<Rightarrow> (Some e, tr1)
           | Inr filename \<Rightarrow>
               (case copy_file env path (destination @ ''/'' @ filename) tr1 of
                  (Some e, tr2) \<Rightarrow> (Some e, tr2)
                | (None, tr2) \<Rightarrow> copy_files_loop env paths destination tr2)))"

definition copy_files_to ::
  "('t, 'd) Env \<Rightarrow> string list \<Rightarrow> string \<Rightarrow> 'd event list \<Rightarrow> error option \<times> 'd event list" where
  "copy_files_to env paths destination tr =
     (case exists_file_or_directory env destination tr of
        (False, tr1) \<Rightarrow> (Some (UnableToLocate destination), tr1)
      | (True, tr1) \<Rightarrow> copy_files_loop env paths destination tr1)"

text \<open>
  A step of \<open>GenerateApplication\<close> that renders or copies: its error is wrapped with
  the prefix of that step, and the steps after it are skipped.
\<close>

definition and_then ::
  "error option \<times> 'e list \<Rightarrow> string \<Rightarrow> ('e list \<Rightarrow> error option \<times> 'e list) \<Rightarrow>
   error option \<times> 'e list" where
  "and_then step prefix rest =
     (case step of
        (Some e, tr) \<Rightarrow> (Some (wrap prefix e), tr)
      | (None, tr) \<Rightarrow> rest tr)"

definition strip_slash :: "string \<Rightarrow> string" where
  "strip_slash path =
     (if length path > 1 \<and> path \<noteq> [] \<and> last path = CHR ''/'' then butlast path else path)"

definition GenerateApplication ::
  "('t, 'x Data) Env \<Rightarrow> 'g Ops \<Rightarrow> 'x Application option \<Rightarrow> string \<Rightarrow> Metadata \<Rightarrow>
   'g Graphdata \<Rightarrow> 'x Data event list \<Rightarrow> error option \<times> 'x Data event list" where
  "GenerateApplication env ops a path0 meta graph_data tr =
     (case a of
        None \<Rightarrow> (Some BadArgumentNull, tr)
      | Some app \<Rightarrow>
          (let path = strip_slash path0;
               root_dir = path @ ''/'' @ Application.Name app;
               src_dir = root_dir @ ''/src'';
               include_dir_1 = root_dir @ ''/include'';
               include_dir_2 = include_dir_1 @ ''/'' @ Application.Name app;
               lib_dir = root_dir @ ''/lib'';
               launch_dir = root_dir @ ''/launch'';
               assets_dir = root_dir @ ''/assets'';
               ds = [root_dir, src_dir, include_dir_1, include_dir_2, lib_dir, launch_dir,
                     assets_dir]
           in case make_directories env ds tr of
                (Some e, tr1) \<Rightarrow> (Some e, tr1)
              | (None, tr1) \<Rightarrow>
           (case generate_sources env meta path src_dir 0 (Application.Executors app) [] tr1 of
              (Some e, executors, tr2) \<Rightarrow> (Some e, tr2)
            | (None, executors, tr2) \<Rightarrow>
           (case filenames_from_paths (Metadata.Sources meta) of
              Inl e \<Rightarrow> (Some e, tr2)
            | Inr sources \<Rightarrow>
           (case filenames_from_paths (Metadata.Libraries meta) of
              Inl e \<Rightarrow> (Some e, tr2)
            | Inr libraries \<Rightarrow>
           (let build = \<lparr>Build.Name = Application.Name app,
                         Build.Packages = Metadata.Packages meta,
                         Build.Sources = sources, Build.Libraries = libraries,
                         Build.Executors = executors\<rparr>
            in
            and_then (GenerateTemplate env (Some (BuildData build))
                        (path @ ''/templates/CMakeLists.tmpl'') (root_dir @ ''/CMakeLists.txt'') tr2)
              ''Unable to generate CMakeLists: '' (\<lambda>tr3.
            and_then (GenerateTemplate env (Some (BuildData build))
                        (path @ ''/templates/package.tmpl'') (root_dir @ ''/package.xml'') tr3)
              ''Unable to generate package XML file: '' (\<lambda>tr4.
            and_then (copy_files_to env (Metadata.Libraries meta) lib_dir tr4)
              ''Unable to copy in libraries/header/src-files: '' (\<lambda>tr5.
            and_then (copy_files_to env (Headers meta) include_dir_2 tr5)
              ''Unable to copy headers to include dir: '' (\<lambda>tr6.
            and_then (copy_files_to env (Metadata.Sources meta) src_dir tr6)
              ''Unable to copy source files to src dir: '' (\<lambda>tr7.
            and_then (GenerateTemplate env (Some (BuildData build))
                        (path @ ''/templates/launch.tmpl'')
                        (launch_dir @ ''/'' @ Build.Name build @ ''_launch.py'') tr7)
              ''Unable to generate launch file: '' (\<lambda>tr8.
            (case graph_to_graphviz ops graph_data of
               Inl e \<Rightarrow> (Some (wrap ''Unable to generate graphviz graph file: '' e), tr8)
             | Inr graphviz_graph \<Rightarrow>
            and_then (GenerateWithCommand env (path @ ''/templates/graph.dt'') ''dot''
                        [''-Tpng'', ''-o'', assets_dir @ ''/graph.png'']
                        (Some (GraphData graphviz_graph)) tr8)
              ''Unable to generate graph dot file: '' (\<lambda>tr9.
            (case application_to_graphviz ops a (Graph graph_data) of
               Inl e \<Rightarrow> (Some (wrap ''Unable to generate graphviz application file: '' e), tr9)
             | Inr graphviz_application \<Rightarrow>
            and_then (GenerateWithCommand env (path @ ''/templates/application.dt'') ''dot''
                        [''-Tpng'', ''-o'', assets_dir @ ''/application.png'']
                        (Some (ApplicationData graphviz_application)) tr9)
              ''Unable to generate application dot file: '' (\<lambda>tr10. (None, tr10)))))))))))))))))"

section \<open>Vocabulary of the theorems\<close>

text \<open>
  The link that both conversions build for edge \<open>e\<close> found between \<open>i\<close> and \<open>j\<close>, and the
  links of a pair, of a row, of the whole graph in the order of the scan.
\<close>

definition edge_link :: "int \<Rightarrow> int \<Rightarrow> Edge \<Rightarrow> Link" where
  "edge_link i j e =
     \<lparr>From = i, To = j, Color = Edge.Color e,
      Label = show_int (Tag e) @ ''.'' @ show_int (Num e)\<rparr>"

definition pair_links :: "'g Ops \<Rightarrow> 'g \<Rightarrow> int \<Rightarrow> int \<Rightarrow> Link list" where
  "pair_links ops g i j = map (edge_link i j) (EdgesAt ops i j g)"

definition row_links :: "'g Ops \<Rightarrow> 'g \<Rightarrow> int \<Rightarrow> Link list" where
  "row_links ops g i = concat (map (pair_links ops g i) [0..Len ops g - 1])"

definition all_links :: "'g Ops \<Rightarrow> 'g \<Rightarrow> Link list" where
  "all_links ops g = concat (map (row_links ops g) [0..Len ops g - 1])"

text \<open>
  The condition of the node loop, and the node it appends for index \<open>i\<close> when \<open>n\<close> nodes
  belong to chains.
\<close>

definition node_kept :: "'g Ops \<Rightarrow> 'g Graphdata \<Rightarrow> int \<Rightarrow> bool" where
  "node_kept ops graph_data i =
     (\<not> Disconnected ops i (Graph graph_data) \<or> length_one_chain ops graph_data i = Inr True)"

definition styled_node :: "'g Graphdata \<Rightarrow> int \<Rightarrow> int \<Rightarrow> Node" where
  "styled_node graph_data n i = (if i < n then chain_node graph_data i else sync_node i)"

text \<open>
  What a trace holds: the paths given to \<open>os.Create\<close>, those given to
  \<open>ioutil.ReadFile\<close>, and the executions of templates, each in the order of the calls.
\<close>

fun created :: "'d event list \<Rightarrow> string list" where
  "created [] = []"
| "created (Create_ev path # evs) = path # created evs"
| "created (ev # evs) = created evs"

fun read_files :: "'d event list \<Rightarrow> string list" where
  "read_files [] = []"
| "read_files (ReadFile_ev path # evs) = path # read_files evs"
| "read_files (ev # evs) = read_files evs"

fun executed :: "'d event list \<Rightarrow> ('d \<times> sink) list" where
  "executed [] = []"
| "executed (Execute_ev d s # evs) = (d, s) # executed evs"
| "executed (ev # evs) = executed evs"

text \<open>
  The output file of the executor at index \<open>i\<close> and the template of the executors, as
  \<open>GenerateApplication\<close> builds them.
\<close>

definition source_file :: "string \<Rightarrow> int \<Rightarrow> string" where
  "source_file src_dir i = src_dir @ ''/executor_'' @ show_int i @ ''.cpp''"

definition executor_template :: "string \<Rightarrow> Metadata \<Rightarrow> string" where
  "executor_template path meta =
     path @ ''/templates/executor_'' @ show_int (Logging_mode meta) @ ''.tmpl''"

section \<open>Example inputs\<close>

text \<open>
  A graph as a node count and a list of edges with their end points, and operations on
  it that stand for those of packages \<open>graph\<close> and \<open>ops\<close>. Chains \<open>[2, 1, 2]\<close> own the
  nodes 0 to 4; node 5 is a synchronization node. Nodes 2 and 4 have no edge: node 2 is
  the chain of length one, node 4 belongs to a chain of length two.
\<close>

fun ex_chain_for_row :: "int \<Rightarrow> int \<Rightarrow> int \<Rightarrow> int list \<Rightarrow> int" where
  "ex_chain_for_row row k lo [] = - 1"
| "ex_chain_for_row row k lo (c # cs) =
     (if lo \<le> row \<and> row < lo + c then k else ex_chain_for_row row (k + 1) (lo + c) cs)"

definition example_ops :: "(int \<times> (int \<times> int \<times> Edge) list) Ops" where
  "example_ops =
     \<lparr>Len = fst,
      EdgesAt = (\<lambda>i j g. map (\<lambda>(a, b, e). e) (filter (\<lambda>(a, b, e). a = i \<and> b = j) (snd g))),
      Disconnected = (\<lambda>i g. list_all (\<lambda>(a, b, e). a \<noteq> i \<and> b \<noteq> i) (snd g)),
      ChainForRow = (\<lambda>row cs. ex_chain_for_row row 0 0 cs)\<rparr>"

definition example_graph :: "int \<times> (int \<times> int \<times> Edge) list" where
  "example_graph =
     (6, [(0, 1, \<lparr>Tag = 0, Num = 1, Color = ''red''\<rparr>),
          (0, 1, \<lparr>Tag = 0, Num = 2, Color = ''blue''\<rparr>),
          (1, 5, \<lparr>Tag = 1, Num = 1, Color = ''black''\<rparr>),
          (5, 3, \<lparr>Tag = 2, Num = 1, Color = ''black''\<rparr>)])"

definition example_graphdata :: "(int \<times> (int \<times> int \<times> Edge) list) Graphdata" where
  "example_graphdata =
     \<lparr>Chains = [2, 1, 2],
      Node_wcet_map = [0 \<mapsto> 100, 1 \<mapsto> 250, 2 \<mapsto> 30, 3 \<mapsto> 40],
      Node_prio_map = [0 \<mapsto> 1, 1 \<mapsto> 2, 2 \<mapsto> 7, 3 \<mapsto> 3],
      Graph = example_graph\<rparr>"

text \<open>
  One node without edges and no chain at all: the node belongs to no chain.
\<close>

definition unchained_graphdata :: "(int \<times> (int \<times> int \<times> Edge) list) Graphdata" where
  "unchained_graphdata =
     \<lparr>Chains = [], Node_wcet_map = Map.empty, Node_prio_map = Map.empty, Graph = (1, [])\<rparr>"

definition example_diagram :: Graphviz_graph where
  "example_diagram =
     \<lparr>Nodes =
        [\<lparr>Id_node = 0, Label = ''N0\<newline>(wcet=100 us)\<newline>prio=1'',
          Style = ''filled'', Fill = ''#FFFFFF'', Shape = ''circle''\<rparr>,
         \<lparr>Id_node = 1, Label = ''N1\<newline>(wcet=250 us)\<newline>prio=2'',
          Style = ''filled'', Fill = ''#FFFFFF'', Shape = ''circle''\<rparr>,
         \<lparr>Id_node = 2, Label = ''N2\<newline>(wcet=30 us)\<newline>prio=7'',
          Style = ''filled'', Fill = ''#FFFFFF'', Shape = ''circle''\<rparr>,
         \<lparr>Id_node = 3, Label = ''N3\<newline>(wcet=40 us)\<newline>prio=3'',
          Style = ''filled'', Fill = ''#FFFFFF'', Shape = ''circle''\<rparr>,
         \<lparr>Id_node = 5, Label = ''N5\<newline>(SYNC)'', Style = ''filled'',
          Fill = ''#FFE74C'', Shape = ''diamond''\<rparr>],
      Links =
        [\<lparr>From = 0, To = 1, Color = ''red'', Label = ''0.1''\<rparr>,
         \<lparr>From = 0, To = 1, Color = ''blue'', Label = ''0.2''\<rparr>,
         \<lparr>From = 1, To = 5, Color = ''black'', Label = ''1.1''\<rparr>,
         \<lparr>From = 5, To = 3, Color = ''black'', Label = ''2.1''\<rparr>]\<rparr>"

definition example_application :: "unit Application" where
  "example_application = \<lparr>Name = ''demo'', Executors = [(), ()]\<rparr>"

definition example_metadata :: Metadata where
  "example_metadata =
     \<lparr>Metadata.Packages = [''rclcpp''], Metadata.Includes = [''rclcpp/rclcpp.hpp''],
      Metadata.MsgType = ''std_msgs::msg::Int64'', Metadata.PPE = False,
      Metadata.PPE_levels = 0, Metadata.FilterPolicy = ''latest'',
      Metadata.Libraries = [''/opt/lib/libfoo.a''], Metadata.Headers = [],
      Metadata.Sources = [''extra/util.cpp''], Metadata.Duration_us = 1000000,
      Metadata.Logging_mode = 2\<rparr>"

text \<open>
  An environment where every call succeeds and only \<open>dot\<close> is on the search path, and
  where the command exits with a failure.
\<close>

definition example_env :: "(string, unit Data) Env" where
  "example_env =
     \<lparr>LookPath = (\<lambda>command tr.
        if command = ''dot'' then Inr ''/usr/bin/dot''
        else Inl ''executable file not found in $PATH''),
      Mkdir = (\<lambda>dir tr. None),
      Stat = (\<lambda>path tr. True),
      Create = (\<lambda>path tr. None),
      ReadFile = (\<lambda>path tr. Inr (Some ''digraph {}'')),
      Parse = (\<lambda>text. Inr text),
      Execute = (\<lambda>t d s tr. None),
      Open = (\<lambda>path tr. None),
      OpenFile = (\<lambda>path tr. None),
      Copy = (\<lambda>file_from file_to tr. None),
      Run = (\<lambda>command args tr. Some ''exit status 1'')\<rparr>"

declare show_nat.simps [simp del]
declare graph_nodes.simps [simp del]
declare graph_links_inner.simps [simp del] graph_links_outer.simps [simp del]
declare app_links_inner.simps [simp del] app_links_outer.simps [simp del]

section \<open>The link loops\<close>

text \<open>Each loop appends to the links it is given; both copies compute \<open>all_links\<close>.\<close>

lemma graph_edge_links_eq: "graph_edge_links i j es links = links @ map (edge_link i j) es"
  by (induction es arbitrary: links) (simp_all add: edge_link_def)

lemma app_edge_links_eq: "app_edge_links i j es links = links @ map (edge_link i j) es"
  by (induction es arbitrary: links) (simp_all add: edge_link_def)

lemma graph_links_inner_eq:
  "graph_links_inner ops g i j links =
     links @ concat (map (pair_links ops g i) [j..Len ops g - 1])"
proof (induction ops g i j links rule: graph_links_inner.induct)
  case (1 ops g i j links)
  show ?case
  proof (cases "j < Len ops g")
    case True
    then have "[j..Len ops g - 1] = j # [j + 1..Len ops g - 1]"
      by (simp add: upto_rec1)
    with True 1 show ?thesis
      by (simp add: graph_links_inner.simps [of ops g i j] graph_edge_links_eq pair_links_def)
  next
    case False
    then show ?thesis
      by (simp add: graph_links_inner.simps [of ops g i j])
  qed
qed

lemma graph_links_outer_eq:
  "graph_links_outer ops g i links =
     links @ concat (map (row_links ops g) [i..Len ops g - 1])"
proof (induction ops g i links rule: graph_links_outer.induct)
  case (1 ops g i links)
  show ?case
  proof (cases "i < Len ops g")
    case True
    then have "[i..Len ops g - 1] = i # [i + 1..Len ops g - 1]"
      by (simp add: upto_rec1)
    with True 1 show ?thesis
      by (simp add: graph_links_outer.simps [of ops g i] graph_links_inner_eq row_links_def)
  next
    case False
    then show ?thesis
      by (simp add: graph_links_outer.simps [of ops g i])
  qed
qed

lemma app_links_inner_eq:
  "app_links_inner ops g i j links =
     links @ concat (map (pair_links ops g i) [j..Len ops g - 1])"
proof (induction ops g i j links rule: app_links_inner.induct)
  case (1 ops g i j links)
  show ?case
  proof (cases "j < Len ops g")
    case True
    then have "[j..Len ops g - 1] = j # [j + 1..Len ops g - 1]"
      by (simp add: upto_rec1)
    with True 1 show ?thesis
      by (simp add: app_links_inner.simps [of ops g i j] app_edge_links_eq pair_links_def)
  next
    case False
    then show ?thesis
      by (simp add: app_links_inner.simps [of ops g i j])
  qed
qed

lemma app_links_outer_eq:
  "app_links_outer ops g i links =
     links @ concat (map (row_links ops g) [i..Len ops g - 1])"
proof (induction ops g i links rule: app_links_outer.induct)
  case (1 ops g i links)
  show ?case
  proof (cases "i < Len ops g")
    case True
    then have "[i..Len ops g - 1] = i # [i + 1..Len ops g - 1]"
      by (simp add: upto_rec1)
    with True 1 show ?thesis
      by (simp add: app_links_outer.simps [of ops g i] app_links_inner_eq row_links_def)
  next
    case False
    then show ?thesis
      by (simp add: app_links_outer.simps [of ops g i])
  qed
qed

text \<open>Selecting the links of one ordered pair from a scan over distinct indices.\<close>

lemma filter_concat_map_one:
  "distinct xs \<Longrightarrow> k \<in> set xs \<Longrightarrow> (\<And>x. x \<in> set xs \<Longrightarrow> x \<noteq> k \<Longrightarrow> filter P (f x) = []) \<Longrightarrow>
   filter P (concat (map f xs)) = filter P (f k)"
proof (induction xs)
  case Nil
  then show ?case by simp
next
  case (Cons x xs)
  show ?case
  proof (cases "x = k")
    case True
    with Cons.prems have "\<And>y. y \<in> set xs \<Longrightarrow> filter P (f y) = []" by auto
    then have "filter P (concat (map f xs)) = []"
      by (induction xs) simp_all
    with True show ?thesis by simp
  next
    case False
    with Cons show ?thesis by auto
  qed
qed

lemma filter_concat_map_none:
  "(\<And>x. x \<in> set xs \<Longrightarrow> filter P (f x) = []) \<Longrightarrow> filter P (concat (map f xs)) = []"
  by (induction xs) simp_all

lemma filter_pair_links:
  "filter (\<lambda>l. From l = i \<and> To l = j) (pair_links ops g i' j') =
     (if i' = i \<and> j' = j then pair_links ops g i j else [])"
  by (auto simp: pair_links_def edge_link_def filter_empty_conv)

lemma filter_row_links:
  assumes "0 \<le> j" "j < Len ops g"
  shows "filter (\<lambda>l. From l = i \<and> To l = j) (row_links ops g i') =
     (if i' = i then pair_links ops g i j else [])"
proof (cases "i' = i")
  case True
  have "filter (\<lambda>l. From l = i \<and> To l = j) (row_links ops g i) =
        filter (\<lambda>l. From l = i \<and> To l = j) (pair_links ops g i j)"
    unfolding row_links_def using assms
    by (intro filter_concat_map_one) (simp_all add: filter_pair_links)
  with True show ?thesis by (simp add: filter_pair_links)
next
  case False
  then show ?thesis
    unfolding row_links_def
    by (simp add: filter_concat_map_none filter_pair_links)
qed

lemma filter_all_links:
  assumes "0 \<le> i" "i < Len ops g" "0 \<le> j" "j < Len ops g"
  shows "filter (\<lambda>l. From l = i \<and> To l = j) (all_links ops g) = pair_links ops g i j"
proof -
  have "filter (\<lambda>l. From l = i \<and> To l = j) (all_links ops g) =
        filter (\<lambda>l. From l = i \<and> To l = j) (row_links ops g i)"
    unfolding all_links_def using assms
    by (intro filter_concat_map_one) (simp_all add: filter_row_links)
  then show ?thesis using assms by (simp add: filter_row_links)
qed

lemma all_links_in_range:
  "l \<in> set (all_links ops g) \<Longrightarrow>
   0 \<le> From l \<and> From l < Len ops g \<and> 0 \<le> To l \<and> To l < Len ops g"
  by (auto simp: all_links_def row_links_def pair_links_def edge_link_def)

section \<open>The node loop\<close>

lemma graph_nodes_eq:
  "graph_nodes ops gd n i nodes = Inr ns \<Longrightarrow>
   ns = nodes @ map (styled_node gd n) (filter (node_kept ops gd) [i..Len ops (Graph gd) - 1])"
proof (induction ops gd n i nodes rule: graph_nodes.induct)
  case (1 ops gd n i nodes)
  show ?case
  proof (cases "i < Len ops (Graph gd)")
    case False
    with "1.prems" show ?thesis
      by (simp add: graph_nodes.simps [of ops gd n i])
  next
    case True
    then have up: "[i..Len ops (Graph gd) - 1] = i # [i + 1..Len ops (Graph gd) - 1]"
      by (simp add: upto_rec1)
    show ?thesis
    proof (cases "Disconnected ops i (Graph gd)")
      case False
      with True "1.prems" have
        "graph_nodes ops gd n (i + 1) (append_node gd n i nodes) = Inr ns"
        by (simp add: graph_nodes.simps [of ops gd n i])
      from "1.IH"(1) [OF True _ this] False
      show ?thesis
        by (simp add: up node_kept_def append_node_def styled_node_def)
    next
      case disc: True
      show ?thesis
      proof (cases "length_one_chain ops gd i")
        case (Inl e)
        with True disc "1.prems" show ?thesis
          by (simp add: graph_nodes.simps [of ops gd n i])
      next
        case (Inr one)
        with True disc "1.prems" have
          "graph_nodes ops gd n (i + 1) (if one then append_node gd n i nodes else nodes) = Inr ns"
          by (simp add: graph_nodes.simps [of ops gd n i])
        from "1.IH"(2) [OF True _ Inr this] disc Inr
        show ?thesis
          by (simp add: up node_kept_def append_node_def styled_node_def)
      qed
    qed
  qed
qed

lemma graph_to_graphviz_eq:
  assumes "graph_to_graphviz ops gd = Inr d"
  shows "Nodes d = map (styled_node gd (NodeCount (Chains gd)))
                     (filter (node_kept ops gd) [0..Len ops (Graph gd) - 1])"
    and "Graphviz_graph.Links d = all_links ops (Graph gd)"
  using assms graph_nodes_eq [of ops gd "NodeCount (Chains gd)" 0 "[]"]
  by (auto simp: graph_to_graphviz_def graph_links_outer_eq all_links_def split: sum.splits)

text \<open>
  \<open>graph_to_graphviz\<close> returns exactly when the chain index that \<open>ops.ChainForRow\<close> gives
  for every disconnected node lies inside \<open>Chains\<close>; otherwise the closure
  \<open>length_one_chain\<close> panics on the slice index.
\<close>

lemma graph_nodes_returns:
  "(\<exists>ns. graph_nodes ops gd n i nodes = Inr ns) =
   (\<forall>k \<in> set [i..Len ops (Graph gd) - 1].
      Disconnected ops k (Graph gd) \<longrightarrow> (\<exists>one. length_one_chain ops gd k = Inr one))"
proof (induction ops gd n i nodes rule: graph_nodes.induct)
  case (1 ops gd n i nodes)
  show ?case
  proof (cases "i < Len ops (Graph gd)")
    case False
    then show ?thesis
      by (simp add: graph_nodes.simps [of ops gd n i])
  next
    case True
    then have up: "[i..Len ops (Graph gd) - 1] = i # [i + 1..Len ops (Graph gd) - 1]"
      by (simp add: upto_rec1)
    show ?thesis
    proof (cases "Disconnected ops i (Graph gd)")
      case False
      with True "1.IH"(1) [OF True] show ?thesis
        by (simp add: graph_nodes.simps [of ops gd n i] up)
    next
      case disc: True
      show ?thesis
      proof (cases "length_one_chain ops gd i")
        case (Inl e)
        with True disc show ?thesis
          by (simp add: graph_nodes.simps [of ops gd n i] up)
      next
        case (Inr one)
        with True disc "1.IH"(2) [OF True _ Inr] show ?thesis
          by (simp add: graph_nodes.simps [of ops gd n i] up)
      qed
    qed
  qed
qed

lemma graph_to_graphviz_returns:
  "(\<exists>d. graph_to_graphviz ops gd = Inr d) =
   (\<forall>k. 0 \<le> k \<and> k < Len ops (Graph gd) \<and> Disconnected ops k (Graph gd) \<longrightarrow>
      0 \<le> ChainForRow ops k (Chains gd) \<and>
      ChainForRow ops k (Chains gd) < int (length (Chains gd)))"
proof -
  have "(\<exists>d. graph_to_graphviz ops gd = Inr d) =
        (\<exists>ns. graph_nodes ops gd (NodeCount (Chains gd)) 0 [] = Inr ns)"
    by (auto simp: graph_to_graphviz_def split: sum.splits)
  also have "\<dots> = (\<forall>k \<in> set [0..Len ops (Graph gd) - 1].
      Disconnected ops k (Graph gd) \<longrightarrow> (\<exists>one. length_one_chain ops gd k = Inr one))"
    by (rule graph_nodes_returns)
  also have "\<dots> = (\<forall>k. 0 \<le> k \<and> k < Len ops (Graph gd) \<and> Disconnected ops k (Graph gd) \<longrightarrow>
      0 \<le> ChainForRow ops k (Chains gd) \<and>
      ChainForRow ops k (Chains gd) < int (length (Chains gd)))"
    by (auto simp: length_one_chain_def Let_def)
  finally show ?thesis .
qed

lemma example_graph_to_graphviz:
  "graph_to_graphviz example_ops example_graphdata = Inr example_diagram"
  by code_simp

section \<open>Claims about the visualization transformer\<close>

text \<open>
  C1, as amended. Whenever \<open>graph_to_graphviz\<close> returns a diagram, each node \<open>nd\<close> of it
  with index \<open>i = Id_node nd\<close> is a chain node when \<open>i\<close> is below the sum of all chain
  lengths: shape \<open>circle\<close>, fill \<open>#FFFFFF\<close>, and the label \<open>N<i>\<close>, a line feed,
  \<open>(wcet=<w> us)\<close>, a line feed, \<open>prio=<p>\<close>, where \<open>w\<close> and \<open>p\<close> are read from the wcet
  and priority maps at \<open>i\<close> (0 when the map has no entry). Otherwise it is a
  synchronization node: shape \<open>diamond\<close>, fill \<open>#FFE74C\<close>, and the label \<open>N<i>\<close>, a line
  feed, \<open>(SYNC)\<close>, with no other number. The separators inside a label are line feeds,
  not spaces.
\<close>

theorem graph_to_graphviz_node_style:
  assumes "graph_to_graphviz ops gd = Inr d" and "nd \<in> set (Nodes d)"
  shows "(Id_node nd < sum_list (Chains gd) \<longrightarrow>
            Shape nd = ''circle'' \<and> Fill nd = ''#FFFFFF'' \<and>
            Node.Label nd =
              ''N'' @ show_int (Id_node nd) @ ''\<newline>(wcet='' @
              show_int (map_get (Node_wcet_map gd) (Id_node nd)) @ '' us)\<newline>prio='' @
              show_int (map_get (Node_prio_map gd) (Id_node nd))) \<and>
         (\<not> Id_node nd < sum_list (Chains gd) \<longrightarrow>
            Shape nd = ''diamond'' \<and> Fill nd = ''#FFE74C'' \<and>
            Node.Label nd = ''N'' @ show_int (Id_node nd) @ ''\<newline>(SYNC)'')"
proof -
  from assms obtain i where "nd = styled_node gd (NodeCount (Chains gd)) i"
    by (auto simp: graph_to_graphviz_eq(1))
  then show ?thesis
    by (simp add: styled_node_def chain_node_def sync_node_def NodeCount_def)
qed

theorem graph_to_graphviz_node_style_witness:
  "graph_to_graphviz example_ops example_graphdata = Inr example_diagram \<and>
   hd (Nodes example_diagram) \<in> set (Nodes example_diagram) \<and>
   Id_node (hd (Nodes example_diagram)) < sum_list (Chains example_graphdata) \<and>
   Shape (hd (Nodes example_diagram)) = ''circle'' \<and>
   Fill (hd (Nodes example_diagram)) = ''#FFFFFF'' \<and>
   Node.Label (hd (Nodes example_diagram)) = ''N0\<newline>(wcet=100 us)\<newline>prio=1'' \<and>
   last (Nodes example_diagram) \<in> set (Nodes example_diagram) \<and>
   \<not> Id_node (last (Nodes example_diagram)) < sum_list (Chains example_graphdata) \<and>
   Shape (last (Nodes example_diagram)) = ''diamond'' \<and>
   Fill (last (Nodes example_diagram)) = ''#FFE74C'' \<and>
   Node.Label (last (Nodes example_diagram)) = ''N5\<newline>(SYNC)''"
proof -
  let ?c = "hd (Nodes example_diagram)" and ?s = "last (Nodes example_diagram)"
  have in_c: "?c \<in> set (Nodes example_diagram)" and in_s: "?s \<in> set (Nodes example_diagram)"
    by (simp_all add: example_diagram_def)
  have chain: "Id_node ?c < sum_list (Chains example_graphdata)"
    and sync: "\<not> Id_node ?s < sum_list (Chains example_graphdata)"
    by (simp_all add: example_diagram_def example_graphdata_def)
  have label_c: "''N'' @ show_int (Id_node ?c) @ ''\<newline>(wcet='' @
      show_int (map_get (Node_wcet_map example_graphdata) (Id_node ?c)) @
      '' us)\<newline>prio='' @
      show_int (map_get (Node_prio_map example_graphdata) (Id_node ?c)) =
      ''N0\<newline>(wcet=100 us)\<newline>prio=1''"
    by code_simp
  have label_s: "''N'' @ show_int (Id_node ?s) @ ''\<newline>(SYNC)'' = ''N5\<newline>(SYNC)''"
    by code_simp
  from graph_to_graphviz_node_style [OF example_graph_to_graphviz in_c] chain
  have c: "Shape ?c = ''circle''" "Fill ?c = ''#FFFFFF''"
    "Node.Label ?c = ''N0\<newline>(wcet=100 us)\<newline>prio=1''"
    unfolding label_c by blast+
  from graph_to_graphviz_node_style [OF example_graph_to_graphviz in_s] sync
  have s: "Shape ?s = ''diamond''" "Fill ?s = ''#FFE74C''"
    "Node.Label ?s = ''N5\<newline>(SYNC)''"
    unfolding label_s by blast+
  from example_graph_to_graphviz in_c chain c in_s sync s show ?thesis
    by blast
qed

text \<open>
  C1 as stated fails: the label of the synchronization node 5 of the example is
  \<open>N5\<close>, a line feed, \<open>(SYNC)\<close>, which is not the string \<open>N5 (SYNC)\<close>.
\<close>

theorem sync_label_counterexample:
  "graph_to_graphviz example_ops example_graphdata = Inr example_diagram \<and>
   Id_node (Nodes example_diagram ! 4) = 5 \<and>
   \<not> 5 < sum_list (Chains example_graphdata) \<and>
   Node.Label (Nodes example_diagram ! 4) = ''N5\<newline>(SYNC)'' \<and>
   Node.Label (Nodes example_diagram ! 4) \<noteq> ''N5 (SYNC)''"
  by (simp add: example_graph_to_graphviz) (simp add: example_diagram_def example_graphdata_def)

text \<open>
  The ids of the nodes of a returned diagram, and the closure \<open>length_one_chain\<close> read
  as a condition on \<open>Chains\<close>.
\<close>

lemma graph_to_graphviz_node_ids:
  assumes "graph_to_graphviz ops gd = Inr d"
  shows "Id_node ` set (Nodes d) = {k \<in> set [0..Len ops (Graph gd) - 1]. node_kept ops gd k}"
proof -
  have id: "Id_node (styled_node gd n k) = k" for n k
    by (simp add: styled_node_def chain_node_def sync_node_def)
  show ?thesis
    by (auto simp: graph_to_graphviz_eq(1) [OF assms] id image_iff)
qed

lemma length_one_chain_True:
  "(length_one_chain ops gd i = Inr True) =
   (0 \<le> ChainForRow ops i (Chains gd) \<and>
    ChainForRow ops i (Chains gd) < int (length (Chains gd)) \<and>
    Chains gd ! nat (ChainForRow ops i (Chains gd)) = 1)"
  by (auto simp: length_one_chain_def Let_def)

text \<open>
  With no chain at all, a disconnected node makes the conversion panic whatever
  \<open>ops.ChainForRow\<close> returns: every index is outside an empty slice.
\<close>

lemma graph_to_graphviz_panics_without_chains:
  assumes "Chains gd = []" and "0 \<le> k" and "k < Len ops (Graph gd)"
    and "Disconnected ops k (Graph gd)"
  shows "\<exists>e. graph_to_graphviz ops gd = Inl e"
proof -
  have "\<not> (\<exists>d. graph_to_graphviz ops gd = Inr d)"
    unfolding graph_to_graphviz_returns using assms by auto
  then show ?thesis
    by (cases "graph_to_graphviz ops gd") auto
qed

text \<open>
  C2, as amended. \<open>graph_to_graphviz\<close> returns a diagram exactly when \<open>ops.ChainForRow\<close>
  gives, for every disconnected node index in \<open>[0, graph.Len())\<close>, an index inside
  \<open>Chains\<close>; otherwise it panics on the slice index. Whenever it returns a diagram, a node
  index \<open>i\<close> with \<open>0 \<le> i < graph.Len()\<close> is the id of a node of the diagram if and only
  if node \<open>i\<close> is connected (\<open>ops.Disconnected\<close> is false) or the chain that
  \<open>ops.ChainForRow\<close> gives for \<open>i\<close> has length exactly 1, that is
  \<open>Chains[ChainForRow(i, Chains)] == 1\<close>. So a node without edges whose chain does not
  have length 1 is left out.
\<close>

theorem graph_to_graphviz_node_included:
  "((\<exists>d. graph_to_graphviz ops gd = Inr d) =
      (\<forall>k. 0 \<le> k \<and> k < Len ops (Graph gd) \<and> Disconnected ops k (Graph gd) \<longrightarrow>
         0 \<le> ChainForRow ops k (Chains gd) \<and>
         ChainForRow ops k (Chains gd) < int (length (Chains gd)))) \<and>
   (\<forall>d i. graph_to_graphviz ops gd = Inr d \<and> 0 \<le> i \<and> i < Len ops (Graph gd) \<longrightarrow>
      (i \<in> Id_node ` set (Nodes d)) =
      (\<not> Disconnected ops i (Graph gd) \<or>
       0 \<le> ChainForRow ops i (Chains gd) \<and>
       ChainForRow ops i (Chains gd) < int (length (Chains gd)) \<and>
       Chains gd ! nat (ChainForRow ops i (Chains gd)) = 1))"
proof (intro conjI allI impI)
  show "(\<exists>d. graph_to_graphviz ops gd = Inr d) =
      (\<forall>k. 0 \<le> k \<and> k < Len ops (Graph gd) \<and> Disconnected ops k (Graph gd) \<longrightarrow>
         0 \<le> ChainForRow ops k (Chains gd) \<and>
         ChainForRow ops k (Chains gd) < int (length (Chains gd)))"
    by (rule graph_to_graphviz_returns)
next
  fix d i
  assume a: "graph_to_graphviz ops gd = Inr d \<and> 0 \<le> i \<and> i < Len ops (Graph gd)"
  then have "graph_to_graphviz ops gd = Inr d"
    by (rule conjunct1)
  then have "Id_node ` set (Nodes d) =
      {k \<in> set [0..Len ops (Graph gd) - 1]. node_kept ops gd k}"
    by (rule graph_to_graphviz_node_ids)
  with a have "(i \<in> Id_node ` set (Nodes d)) = node_kept ops gd i"
    by simp
  then show "(i \<in> Id_node ` set (Nodes d)) =
      (\<not> Disconnected ops i (Graph gd) \<or>
       0 \<le> ChainForRow ops i (Chains gd) \<and>
       ChainForRow ops i (Chains gd) < int (length (Chains gd)) \<and>
       Chains gd ! nat (ChainForRow ops i (Chains gd)) = 1)"
    by (simp only: node_kept_def length_one_chain_True)
qed

theorem graph_to_graphviz_node_included_witness:
  "graph_to_graphviz example_ops example_graphdata = Inr example_diagram \<and>
   (0::int) \<le> 2 \<and> 2 < Len example_ops (Graph example_graphdata) \<and>
   Disconnected example_ops 2 (Graph example_graphdata) \<and>
   ChainForRow example_ops 2 (Chains example_graphdata) = 1 \<and>
   Chains example_graphdata ! 1 = 1 \<and>
   2 \<in> Id_node ` set (Nodes example_diagram) \<and>
   (0::int) \<le> 4 \<and> 4 < Len example_ops (Graph example_graphdata) \<and>
   Disconnected example_ops 4 (Graph example_graphdata) \<and>
   ChainForRow example_ops 4 (Chains example_graphdata) = 2 \<and>
   Chains example_graphdata ! 2 = 2 \<and>
   4 \<notin> Id_node ` set (Nodes example_diagram)"
proof -
  note run = example_graph_to_graphviz
  have pos: "(0::int) \<le> 2" "(0::int) \<le> 4"
    by simp_all
  have len: "2 < Len example_ops (Graph example_graphdata)"
    "4 < Len example_ops (Graph example_graphdata)"
    by code_simp+
  have disc: "Disconnected example_ops 2 (Graph example_graphdata)"
    "Disconnected example_ops 4 (Graph example_graphdata)"
    by code_simp+
  have row: "ChainForRow example_ops 2 (Chains example_graphdata) = 1"
    "ChainForRow example_ops 4 (Chains example_graphdata) = 2"
    by code_simp+
  have chain: "Chains example_graphdata ! 1 = 1" "Chains example_graphdata ! 2 = 2"
    by code_simp+
  have size: "length (Chains example_graphdata) = 3"
    by code_simp
  note included = graph_to_graphviz_node_included
    [of example_ops example_graphdata, THEN conjunct2, rule_format]
  from included [of example_diagram 2] run pos(1) len(1) disc(1) row(1) chain(1) size
  have kept: "2 \<in> Id_node ` set (Nodes example_diagram)"
    by simp
  from included [of example_diagram 4] run pos(2) len(2) disc(2) row(2) chain(2) size
  have dropped: "4 \<notin> Id_node ` set (Nodes example_diagram)"
    by simp
  from run pos len disc row chain kept dropped show ?thesis
    by blast
qed

text \<open>
  C2 as stated fails: for a graph of one node without edges and an empty list of chains,
  the node is in no chain of length 1, yet the conversion does not leave it out of a
  diagram: it panics and produces no diagram.
\<close>

theorem isolated_node_counterexample:
  "Len example_ops (Graph unchained_graphdata) = 1 \<and>
   Disconnected example_ops 0 (Graph unchained_graphdata) \<and>
   Chains unchained_graphdata = [] \<and>
   graph_to_graphviz example_ops unchained_graphdata = Inl (PanicIndexOutOfRange (- 1) 0)"
  by code_simp

text \<open>
  C3. Whenever \<open>graph_to_graphviz\<close> returns a diagram, its links from \<open>i\<close> to \<open>j\<close>, for
  node indices \<open>i\<close> and \<open>j\<close> of the graph, are exactly one link for each edge that
  \<open>ops.EdgesAt(i, j, graph)\<close> returns, in the same order, each with the colour of its
  edge and the label \<open><tag>.<num>\<close>: \<open>k\<close> parallel edges give \<open>k\<close> links, no edge gives
  none.
\<close>

theorem graph_to_graphviz_links_of_pair:
  assumes "graph_to_graphviz ops gd = Inr d"
    and "0 \<le> i" and "i < Len ops (Graph gd)" and "0 \<le> j" and "j < Len ops (Graph gd)"
  shows "filter (\<lambda>l. From l = i \<and> To l = j) (Graphviz_graph.Links d) =
         map (\<lambda>e. \<lparr>From = i, To = j, Color = Edge.Color e,
                    Label = show_int (Tag e) @ ''.'' @ show_int (Num e)\<rparr>)
           (EdgesAt ops i j (Graph gd))"
  using assms
  by (simp add: graph_to_graphviz_eq(2) filter_all_links pair_links_def edge_link_def [abs_def])

theorem graph_to_graphviz_links_of_pair_witness:
  "graph_to_graphviz example_ops example_graphdata = Inr example_diagram \<and>
   (0::int) \<le> 0 \<and> 0 < Len example_ops (Graph example_graphdata) \<and>
   (0::int) \<le> 1 \<and> 1 < Len example_ops (Graph example_graphdata) \<and>
   length (EdgesAt example_ops 0 1 (Graph example_graphdata)) = 2 \<and>
   filter (\<lambda>l. From l = 0 \<and> To l = 1) (Graphviz_graph.Links example_diagram) =
     [\<lparr>From = 0, To = 1, Color = ''red'', Label = ''0.1''\<rparr>,
      \<lparr>From = 0, To = 1, Color = ''blue'', Label = ''0.2''\<rparr>] \<and>
   length (EdgesAt example_ops 1 0 (Graph example_graphdata)) = 0 \<and>
   filter (\<lambda>l. From l = 1 \<and> To l = 0) (Graphviz_graph.Links example_diagram) = []"
proof -
  have pos: "(0::int) \<le> 0" "(0::int) \<le> 1"
    by simp_all
  have len: "0 < Len example_ops (Graph example_graphdata)"
    "1 < Len example_ops (Graph example_graphdata)"
    by code_simp+
  have count: "length (EdgesAt example_ops 0 1 (Graph example_graphdata)) = 2"
    "length (EdgesAt example_ops 1 0 (Graph example_graphdata)) = 0"
    by code_simp+
  have forward: "map (\<lambda>e. \<lparr>From = 0, To = 1, Color = Edge.Color e,
        Label = show_int (Tag e) @ ''.'' @ show_int (Num e)\<rparr>)
      (EdgesAt example_ops 0 1 (Graph example_graphdata)) =
      [\<lparr>From = 0, To = 1, Color = ''red'', Label = ''0.1''\<rparr>,
       \<lparr>From = 0, To = 1, Color = ''blue'', Label = ''0.2''\<rparr>]"
    by code_simp
  have backward: "map (\<lambda>e. \<lparr>From = 1, To = 0, Color = Edge.Color e,
        Label = show_int (Tag e) @ ''.'' @ show_int (Num e)\<rparr>)
      (EdgesAt example_ops 1 0 (Graph example_graphdata)) = []"
    by code_simp
  from graph_to_graphviz_links_of_pair [OF example_graph_to_graphviz pos(1) len(1) pos(2) len(2)]
  have two: "filter (\<lambda>l. From l = 0 \<and> To l = 1) (Graphviz_graph.Links example_diagram) =
     [\<lparr>From = 0, To = 1, Color = ''red'', Label = ''0.1''\<rparr>,
      \<lparr>From = 0, To = 1, Color = ''blue'', Label = ''0.2''\<rparr>]"
    unfolding forward .
  from graph_to_graphviz_links_of_pair [OF example_graph_to_graphviz pos(2) len(2) pos(1) len(1)]
  have none: "filter (\<lambda>l. From l = 1 \<and> To l = 0) (Graphviz_graph.Links example_diagram) = []"
    unfolding backward .
  from example_graph_to_graphviz pos len count two none show ?thesis
    by blast
qed

text \<open>
  C4. \<open>application_to_graphviz\<close> always returns, and whenever \<open>graph_to_graphviz\<close> returns a
  diagram for the same graph the two link lists are equal. The result of
  \<open>application_to_graphviz\<close> holds the application it was given, unchanged, and these
  links: it has no node list, so no node is filtered or styled.
\<close>

theorem application_to_graphviz_links:
  assumes "graph_to_graphviz ops gd = Inr d"
  shows "application_to_graphviz ops a (Graph gd) =
         Inr \<lparr>App = a, Links = Graphviz_graph.Links d\<rparr>"
  using assms
  by (simp add: application_to_graphviz_def graph_to_graphviz_eq(2) app_links_outer_eq
      all_links_def)

theorem application_to_graphviz_links_witness:
  "graph_to_graphviz example_ops example_graphdata = Inr example_diagram \<and>
   application_to_graphviz example_ops (Some example_application) (Graph example_graphdata) =
     Inr \<lparr>App = Some example_application,
          Links =
            [\<lparr>From = 0, To = 1, Color = ''red'', Label = ''0.1''\<rparr>,
             \<lparr>From = 0, To = 1, Color = ''blue'', Label = ''0.2''\<rparr>,
             \<lparr>From = 1, To = 5, Color = ''black'', Label = ''1.1''\<rparr>,
             \<lparr>From = 5, To = 3, Color = ''black'', Label = ''2.1''\<rparr>]\<rparr>"
proof -
  have links: "Graphviz_graph.Links example_diagram =
      [\<lparr>From = 0, To = 1, Color = ''red'', Label = ''0.1''\<rparr>,
       \<lparr>From = 0, To = 1, Color = ''blue'', Label = ''0.2''\<rparr>,
       \<lparr>From = 1, To = 5, Color = ''black'', Label = ''1.1''\<rparr>,
       \<lparr>From = 5, To = 3, Color = ''black'', Label = ''2.1''\<rparr>]"
    by (simp add: example_diagram_def)
  from application_to_graphviz_links [OF example_graph_to_graphviz,
      of "Some example_application"]
  show ?thesis
    unfolding links using example_graph_to_graphviz by blast
qed

section \<open>Claims about the template renderer\<close>

text \<open>
  C5. \<open>GenerateTemplate\<close> with data that is not nil and the same path \<open>p\<close> for the template
  and for the output returns the error ``input file (template) cannot be same as output
  file'', of class \<open>InvalidArgument\<close>, and the trace is the one it started from: no file
  was created, read or written.
\<close>

theorem GenerateTemplate_same_path:
  "GenerateTemplate env (Some d) p p tr = (Some SameInputOutput, tr) \<and>
   class_of SameInputOutput = Some InvalidArgument \<and>
   error_text SameInputOutput = ''input file (template) cannot be same as output file''"
  by (simp add: GenerateTemplate_def)

text \<open>
  C6. When \<open>exec.LookPath\<close> does not find the command, \<open>GenerateWithCommand\<close> returns the
  error ``Cannot find command ...'', of class \<open>NotFound\<close>, whatever the data (nil or
  not), and the look-up is all that happened: the template was not read. When the command
  is found and the data is nil, it returns ``bad input: null pointer'', of class
  \<open>InvalidArgument\<close>, again before the template is read.
\<close>

theorem GenerateWithCommand_command_first:
  "(LookPath env command tr = Inl cause \<longrightarrow>
      GenerateWithCommand env path command args data tr =
        (Some (CannotFindCommand command cause), tr @ [LookPath_ev command]) \<and>
      class_of (CannotFindCommand command cause) = Some NotFound) \<and>
   (LookPath env command tr = Inr found \<longrightarrow>
      GenerateWithCommand env path command args None tr =
        (Some BadInputNull, tr @ [LookPath_ev command]) \<and>
      class_of BadInputNull = Some InvalidArgument)"
  by (simp add: GenerateWithCommand_def)

theorem GenerateWithCommand_command_first_witness:
  "LookPath example_env ''neato'' [] = Inl ''executable file not found in $PATH'' \<and>
   GenerateWithCommand example_env ''t/graph.dt'' ''neato'' [''-Tpng''] None [] =
     (Some (CannotFindCommand ''neato'' ''executable file not found in $PATH''),
      [LookPath_ev ''neato'']) \<and>
   LookPath example_env ''dot'' [] = Inr ''/usr/bin/dot'' \<and>
   GenerateWithCommand example_env ''t/graph.dt'' ''dot'' [''-Tpng''] None [] =
     (Some BadInputNull, [LookPath_ev ''dot''])"
proof -
  have no: "LookPath example_env ''neato'' [] = Inl ''executable file not found in $PATH''"
    by (simp add: example_env_def)
  have yes: "LookPath example_env ''dot'' [] = Inr ''/usr/bin/dot''"
    by (simp add: example_env_def)
  from no yes
    GenerateWithCommand_command_first [of example_env "''neato''" "[]"
      "''executable file not found in $PATH''" "''t/graph.dt''" "[''-Tpng'']" None
      "''/usr/bin/dot''"]
    GenerateWithCommand_command_first [of example_env "''dot''" "[]"
      "''executable file not found in $PATH''" "''t/graph.dt''" "[''-Tpng'']" None
      "''/usr/bin/dot''"]
  show ?thesis by simp
qed

text \<open>
  C10. When the command is found, the data is not nil, and the read, the parse and the
  execution of the template succeed, \<open>GenerateWithCommand\<close> returns no error whatever
  \<open>cmd.Run()\<close> returns, a failure of the command included; and in every case the
  returned error is the same for any two results of \<open>cmd.Run()\<close>.
\<close>

theorem GenerateWithCommand_ignores_exit:
  assumes "LookPath env command tr = Inr found"
    and "ReadFile env path (tr @ [LookPath_ev command]) = Inr (Some template_buffer)"
    and "Parse env template_buffer = Inr t"
    and "Execute env t d (ToCommand command args)
           (tr @ [LookPath_ev command, ReadFile_ev path, Start_ev command args]) = None"
  shows "GenerateWithCommand (env\<lparr>Run := run\<rparr>) path command args (Some d) tr =
           (None,
            tr @ [LookPath_ev command, ReadFile_ev path, Start_ev command args,
                  Execute_ev d (ToCommand command args), PipeClose_ev,
                  Exit_ev command
                    (run command args
                       (tr @ [LookPath_ev command, ReadFile_ev path, Start_ev command args,
                              Execute_ev d (ToCommand command args), PipeClose_ev]))]) \<and>
         fst (GenerateWithCommand (env\<lparr>Run := run\<rparr>) path' command' args' data' tr') =
         fst (GenerateWithCommand env path' command' args' data' tr')"
  using assms
  by (simp add: GenerateWithCommand_def Let_def split: sum.splits option.splits)

theorem GenerateWithCommand_ignores_exit_witness:
  "LookPath example_env ''dot'' [] = Inr ''/usr/bin/dot'' \<and>
   Run example_env ''dot'' [''-Tpng'']
     [LookPath_ev ''dot'', ReadFile_ev ''t/graph.dt'', Start_ev ''dot'' [''-Tpng''],
      Execute_ev (GraphData example_diagram) (ToCommand ''dot'' [''-Tpng'']), PipeClose_ev] =
     Some ''exit status 1'' \<and>
   GenerateWithCommand example_env ''t/graph.dt'' ''dot'' [''-Tpng'']
       (Some (GraphData example_diagram)) [] =
     (None,
      [LookPath_ev ''dot'', ReadFile_ev ''t/graph.dt'', Start_ev ''dot'' [''-Tpng''],
       Execute_ev (GraphData example_diagram) (ToCommand ''dot'' [''-Tpng'']), PipeClose_ev,
       Exit_ev ''dot'' (Some ''exit status 1'')])"
proof -
  have look: "LookPath example_env ''dot'' [] = Inr ''/usr/bin/dot''"
    and read: "ReadFile example_env ''t/graph.dt'' ([] @ [LookPath_ev ''dot'']) =
      Inr (Some ''digraph {}'')"
    and parse: "Parse example_env ''digraph {}'' = Inr ''digraph {}''"
    and exec: "Execute example_env ''digraph {}'' (GraphData example_diagram)
      (ToCommand ''dot'' [''-Tpng''])
      ([] @ [LookPath_ev ''dot'', ReadFile_ev ''t/graph.dt'', Start_ev ''dot'' [''-Tpng'']]) =
      None"
    and run: "Run example_env = (\<lambda>command args tr. Some ''exit status 1'')"
    by (simp_all add: example_env_def)
  have same: "example_env\<lparr>Run := \<lambda>command args tr. Some ''exit status 1''\<rparr> = example_env"
    by (simp add: example_env_def)
  from GenerateWithCommand_ignores_exit [OF look read parse exec,
      of "\<lambda>command args tr. Some ''exit status 1''" "''t/graph.dt''" "''dot''" "[''-Tpng'']"
        "Some (GraphData example_diagram)" "[]"]
  show ?thesis
    by (simp add: same look run)
qed

section \<open>Claims about the file staging helpers\<close>

lemma split_byte_not_Nil: "split_byte sep s \<noteq> []"
  by (induction s) (auto split: list.splits)

lemma split_byte_length: "length (split_byte sep s) = Suc (length (filter (\<lambda>c. c = sep) s))"
  by (induction s) (auto split: list.splits)

lemma split_byte_no_separator: "sep \<notin> set s \<Longrightarrow> split_byte sep s = [s]"
  by (induction s) auto

lemma split_byte_last_Cons:
  assumes "sep \<in> set s"
  shows "last (split_byte sep (c # s)) = last (split_byte sep s)"
proof -
  from assms have "filter (\<lambda>c. c = sep) s \<noteq> []"
    by (auto simp: filter_empty_conv)
  then have "2 \<le> length (split_byte sep s)"
    by (cases "filter (\<lambda>c. c = sep) s") (simp_all add: split_byte_length)
  then obtain first second others where "split_byte sep s = first # second # others"
    by (cases "split_byte sep s"; cases "tl (split_byte sep s)") auto
  then show ?thesis by simp
qed

lemma last_split_byte: "last (split_byte CHR ''/'' s) = after_last_separator s"
proof (induction s)
  case Nil
  show ?case by (simp add: after_last_separator_def)
next
  case (Cons c s)
  show ?case
  proof (cases "CHR ''/'' \<in> set s")
    case True
    then have "after_last_separator (c # s) = after_last_separator s"
      by (auto simp: after_last_separator_def takeWhile_append)
    with True Cons show ?thesis
      by (simp only: split_byte_last_Cons)
  next
    case False
    then have "after_last_separator (c # s) = (if c = CHR ''/'' then s else c # s)"
      by (auto simp: after_last_separator_def takeWhile_append)
    with False show ?thesis
      by (simp add: split_byte_no_separator)
  qed
qed

lemma filename_from_path_eq: "filename_from_path path = Inr (after_last_separator path)"
proof -
  let ?elements = "split_byte CHR ''/'' path"
  have "?elements \<noteq> []"
    by (rule split_byte_not_Nil)
  then have "?elements ! (length ?elements - 1) = last ?elements"
    by (simp add: last_conv_nth)
  with \<open>?elements \<noteq> []\<close> show ?thesis
    by (simp add: filename_from_path_def Let_def last_split_byte)
qed

lemma filenames_loop_eq:
  "filenames_loop paths filenames = Inr (filenames @ map after_last_separator paths)"
  by (induction paths arbitrary: filenames) (simp_all add: filename_from_path_eq)

text \<open>
  C7, as amended. \<open>filename_from_path\<close> never returns an error: its only error needs
  \<open>strings.Split\<close> to return no element, and for the separator \<open>/\<close> it returns at least
  one. Given the empty path it returns the empty filename. So \<open>filenames_from_paths\<close>
  succeeds on every list, with one filename for each path.
\<close>

theorem filename_from_path_never_fails:
  "filename_from_path [] = Inr [] \<and>
   (\<exists>filename. filename_from_path path = Inr filename) \<and>
   (\<exists>filenames. filenames_from_paths paths = Inr filenames \<and>
      length filenames = length paths)"
  by (simp add: filename_from_path_eq filenames_from_paths_def filenames_loop_eq
      after_last_separator_def)

text \<open>
  C7 as stated fails: the empty path gives the empty filename and no error, and a list
  with an empty path is converted as a whole.
\<close>

theorem empty_path_counterexample:
  "filename_from_path '''' = Inr '''' \<and>
   filenames_from_paths [''lib/libfoo.a'', ''''] = Inr [''libfoo.a'', '''']"
  by (simp add: filename_from_path_def filenames_from_paths_def)

text \<open>
  C8. For a list of paths that is not empty and holds no empty path,
  \<open>filenames_from_paths\<close> succeeds with as many filenames as there are paths, and the
  filename at each index is what follows the last \<open>/\<close> of the path at that index.
\<close>

theorem filenames_from_paths_correct:
  assumes "paths \<noteq> []" and "\<forall>path \<in> set paths. path \<noteq> []"
  shows "\<exists>filenames. filenames_from_paths paths = Inr filenames \<and>
           length filenames = length paths \<and>
           (\<forall>k < length paths. filenames ! k = after_last_separator (paths ! k))"
  by (simp add: filenames_from_paths_def filenames_loop_eq)

theorem filenames_from_paths_correct_witness:
  "[''/opt/lib/libfoo.a'', ''main.cpp'', ''src/''] \<noteq> [] \<and>
   filenames_from_paths [''/opt/lib/libfoo.a'', ''main.cpp'', ''src/''] =
     Inr [''libfoo.a'', ''main.cpp'', '''']"
proof -
  let ?paths = "[''/opt/lib/libfoo.a'', ''main.cpp'', ''src/'']"
  have ne: "?paths \<noteq> []" by simp
  have all: "\<forall>path \<in> set ?paths. path \<noteq> []" by simp
  from filenames_from_paths_correct [OF ne all]
  obtain filenames where f: "filenames_from_paths ?paths = Inr filenames"
    and len: "length filenames = length ?paths"
    and nth: "\<forall>k < length ?paths. filenames ! k = after_last_separator (?paths ! k)"
    by blast
  from len obtain a b c where abc: "filenames = [a, b, c]"
    by (cases filenames; cases "tl filenames"; cases "tl (tl filenames)") auto
  from nth have "filenames ! 0 = after_last_separator (?paths ! 0)"
    and "filenames ! 1 = after_last_separator (?paths ! 1)"
    and "filenames ! 2 = after_last_separator (?paths ! 2)"
    by simp_all
  with abc have "filenames = [''libfoo.a'', ''main.cpp'', '''']"
    by (simp add: after_last_separator_def)
  with f show ?thesis by simp
qed

section \<open>Claims about the orchestrator\<close>

lemma created_append: "created (xs @ ys) = created xs @ created ys"
  by (induction xs rule: created.induct) simp_all

lemma read_files_append: "read_files (xs @ ys) = read_files xs @ read_files ys"
  by (induction xs rule: read_files.induct) simp_all

lemma executed_append: "executed (xs @ ys) = executed xs @ executed ys"
  by (induction xs rule: executed.induct) simp_all

lemma template_is_not_source: "executor_template path meta \<noteq> source_file src_dir i"
proof
  assume "executor_template path meta = source_file src_dir i"
  then have "last (executor_template path meta) = last (source_file src_dir i)"
    by simp
  then show False
    by (simp add: executor_template_def source_file_def)
qed

lemma GenerateTemplate_events:
  assumes "GenerateTemplate env (Some d) in_path out_path tr = (res, tr')"
    and "in_path \<noteq> out_path"
  shows "created tr' = created tr @ [out_path]"
    and "set (read_files tr') \<subseteq> set (read_files tr) \<union> {in_path}"
    and "res = None \<Longrightarrow> executed tr' = executed tr @ [(d, ToFile out_path)]"
    and "res = None \<Longrightarrow> read_files tr' = read_files tr @ [in_path]"
  using assms
  by (auto simp: GenerateTemplate_def Let_def created_append read_files_append executed_append
      split: option.splits sum.splits)

lemma generate_sources_Cons:
  "generate_sources env meta path src_dir i (exec # rest) executors tr =
     (case GenerateTemplate env (Some (ExecutorData (ros_exec meta exec)))
             (executor_template path meta) (source_file src_dir i) tr of
        (Some e, tr') \<Rightarrow>
          (Some (wrap ''Unable to generate source file: '' e),
           executors @ [ros_exec meta exec], tr')
      | (None, tr') \<Rightarrow>
          generate_sources env meta path src_dir (i + 1) rest
            (executors @ [ros_exec meta exec]) tr')"
  by (simp add: executor_template_def source_file_def Let_def)

lemma generate_sources_events:
  assumes "generate_sources env meta path src_dir i execs executors tr = (res, executors', tr')"
  shows "\<exists>m \<le> length execs.
           created tr' = created tr @ map (\<lambda>k. source_file src_dir (i + int k)) [0..<m] \<and>
           set (read_files tr') \<subseteq> set (read_files tr) \<union> {executor_template path meta} \<and>
           (res = None \<longrightarrow>
              m = length execs \<and>
              executors' = executors @ map (ros_exec meta) execs \<and>
              read_files tr' =
                read_files tr @ replicate (length execs) (executor_template path meta) \<and>
              executed tr' =
                executed tr @
                map (\<lambda>k. (ExecutorData (ros_exec meta (execs ! k)),
                           ToFile (source_file src_dir (i + int k)))) [0..<length execs])"
  using assms
proof (induction execs arbitrary: i executors tr)
  case Nil
  then show ?case by auto
next
  case (Cons exec rest)
  let ?in = "executor_template path meta" and ?out = "source_file src_dir i"
  let ?d = "ExecutorData (ros_exec meta exec)"
  obtain r1 tr1 where gt: "GenerateTemplate env (Some ?d) ?in ?out tr = (r1, tr1)"
    by (cases "GenerateTemplate env (Some ?d) ?in ?out tr")
  note ev = GenerateTemplate_events [OF gt template_is_not_source]
  note run = Cons.prems [unfolded generate_sources_Cons gt]
  show ?case
  proof (cases r1)
    case (Some e)
    with run have "res \<noteq> None" and "tr' = tr1"
      by auto
    with ev(1,2) show ?thesis
      by (intro exI [of _ 1]) auto
  next
    case None
    with run have
      rec: "generate_sources env meta path src_dir (i + 1) rest
              (executors @ [ros_exec meta exec]) tr1 = (res, executors', tr')"
      by simp
    from Cons.IH [OF rec] obtain m where m: "m \<le> length rest"
      and cr: "created tr' = created tr1 @ map (\<lambda>k. source_file src_dir (i + 1 + int k)) [0..<m]"
      and rd: "set (read_files tr') \<subseteq> set (read_files tr1) \<union> {?in}"
      and ok: "res = None \<longrightarrow>
              m = length rest \<and>
              executors' = (executors @ [ros_exec meta exec]) @ map (ros_exec meta) rest \<and>
              read_files tr' = read_files tr1 @ replicate (length rest) ?in \<and>
              executed tr' =
                executed tr1 @
                map (\<lambda>k. (ExecutorData (ros_exec meta (rest ! k)),
                           ToFile (source_file src_dir (i + 1 + int k)))) [0..<length rest]"
      by blast
    have shift: "map f [0..<Suc n] = f 0 # map (\<lambda>k. f (Suc k)) [0..<n]" for f :: "nat \<Rightarrow> 'z" and n
      by (simp add: map_upt_Suc del: upt_Suc)
    have sum: "i + 1 + int k = i + int (Suc k)" for k
      by simp
    have c1: "created tr' = created tr @ map (\<lambda>k. source_file src_dir (i + int k)) [0..<Suc m]"
      unfolding shift cr ev(1) sum by simp
    have c2: "set (read_files tr') \<subseteq> set (read_files tr) \<union> {?in}"
      using rd ev(2) by blast
    have c3: "res = None \<longrightarrow>
              Suc m = length (exec # rest) \<and>
              executors' = executors @ map (ros_exec meta) (exec # rest) \<and>
              read_files tr' =
                read_files tr @ replicate (length (exec # rest)) ?in \<and>
              executed tr' =
                executed tr @
                map (\<lambda>k. (ExecutorData (ros_exec meta ((exec # rest) ! k)),
                           ToFile (source_file src_dir (i + int k)))) [0..<length (exec # rest)]"
    proof
      assume "res = None"
      with ok have a: "m = length rest"
        and b: "executors' = (executors @ [ros_exec meta exec]) @ map (ros_exec meta) rest"
        and c: "read_files tr' = read_files tr1 @ replicate (length rest) ?in"
        and d: "executed tr' = executed tr1 @
                map (\<lambda>k. (ExecutorData (ros_exec meta (rest ! k)),
                           ToFile (source_file src_dir (i + 1 + int k)))) [0..<length rest]"
        by blast+
      have e: "executed tr' = executed tr @
                map (\<lambda>k. (ExecutorData (ros_exec meta ((exec # rest) ! k)),
                           ToFile (source_file src_dir (i + int k)))) [0..<Suc (length rest)]"
        unfolding shift d ev(3) [OF None] sum by simp
      from a b c e ev(4) [OF None] show "Suc m = length (exec # rest) \<and>
              executors' = executors @ map (ros_exec meta) (exec # rest) \<and>
              read_files tr' =
                read_files tr @ replicate (length (exec # rest)) ?in \<and>
              executed tr' =
                executed tr @
                map (\<lambda>k. (ExecutorData (ros_exec meta ((exec # rest) ! k)),
                           ToFile (source_file src_dir (i + int k)))) [0..<length (exec # rest)]"
        by simp
    qed
    from m c1 c2 c3 show ?thesis
      by (intro exI [of _ "Suc m"]) simp
  qed
qed








text \<open>
  The example run: two executors, logging mode 2, every call to the outside succeeds.
\<close>

lemma example_GenerateApplication:
  "fst (GenerateApplication example_env example_ops (Some example_application) ''ws/''
          example_metadata example_graphdata []) = None \<and>
   created (snd (GenerateApplication example_env example_ops (Some example_application) ''ws/''
          example_metadata example_graphdata [])) =
     [''ws/demo/src/executor_0.cpp'', ''ws/demo/src/executor_1.cpp'',
      ''ws/demo/CMakeLists.txt'', ''ws/demo/package.xml'', ''ws/demo/launch/demo_launch.py'']"
  by code_simp

text \<open>
  The executor loop with the arguments \<open>GenerateApplication\<close> gives it.
\<close>

lemma generate_sources_files:
  assumes "generate_sources env meta (strip_slash path)
             (strip_slash path @ ''/'' @ Application.Name app @ ''/src'') 0
             (Application.Executors app) [] tr = (res, executors, tr')"
  shows "\<exists>m \<le> length (Application.Executors app).
           created tr' =
             created tr @
             map (\<lambda>k. strip_slash path @ ''/'' @ Application.Name app @ ''/src'' @
                        ''/executor_'' @ show_int (int k) @ ''.cpp'') [0..<m] \<and>
           set (read_files tr') \<subseteq>
             set (read_files tr) \<union>
             {strip_slash path @ ''/templates/executor_'' @ show_int (Logging_mode meta) @
              ''.tmpl''} \<and>
           (res = None \<longrightarrow>
              m = length (Application.Executors app) \<and>
              executors = map (ros_exec meta) (Application.Executors app) \<and>
              read_files tr' =
                read_files tr @
                replicate (length (Application.Executors app))
                  (strip_slash path @ ''/templates/executor_'' @
                   show_int (Logging_mode meta) @ ''.tmpl'') \<and>
              executed tr' =
                executed tr @
                map (\<lambda>k. (ExecutorData (ros_exec meta (Application.Executors app ! k)),
                           ToFile (strip_slash path @ ''/'' @ Application.Name app @ ''/src'' @
                                   ''/executor_'' @ show_int (int k) @ ''.cpp'')))
                  [0..<length (Application.Executors app)])"
  using generate_sources_events [OF assms]
  by (simp add: source_file_def executor_template_def)





end
